theory Spec2Isabelle
  imports Main "HOL-Library.Word" "HOL-Library.Monad_Syntax"
begin

section \<open>The GaussianCDF function plugin\<close>

text \<open>
  The plugin exports four C functions, each of which returns \<open>void\<close> and answers through a
  pointer supplied by the host: \<open>GetFunctionName(char* name)\<close>,
  \<open>GetFunctionValue(double* x, double* a, double* y)\<close>, \<open>GetNumParameters(int* n)\<close> and
  \<open>GetNumVariables(int* n)\<close>. Pointers are modelled as locations of an explicit memory, so
  that what a call writes, what it leaves alone, and what happens when the host's pointers
  overlap are all visible in the model.
\<close>

subsection \<open>Memory\<close>

text \<open>
  The memory is split by the type of the object stored: one heap of \<open>char\<close>, one of \<open>int\<close>
  (32 bits on the plugin's platform) and one of \<open>double\<close>. A location holds \<open>None\<close> when the
  host has not made it available; \<open>p + i\<close> is the location of the element \<open>p[i]\<close>.
  A load or store at a location that is not available is undefined behaviour in C; the model
  makes it the outcome \<open>InvalidAccess\<close>. The source has no other way to fail.
\<close>

type_synonym addr = nat

record 'd memory =
  chars :: "addr \<rightharpoonup> char"
  ints :: "addr \<rightharpoonup> 32 word"
  doubles :: "addr \<rightharpoonup> 'd"

datatype error = InvalidAccess

subsection \<open>The platform\<close>

text \<open>
  The operators \<open>*\<close>, \<open>+\<close>, \<open>-\<close>, \<open>/\<close> on \<open>double\<close>, the conversion of the literals \<open>0.5\<close>,
  \<open>1.0\<close>, \<open>2.0\<close>, and \<open>erf\<close> and \<open>sqrt\<close> of \<open>math.h\<close> belong to the compiler and the C
  library, not to the plugin. The model takes them as a parameter: a type \<open>'d\<close> of values
  and a record of operations on it. The last field is the part of \<open>strcpy_s\<close> that the C
  standard leaves open, explained below. Every theorem holds for every such platform.
\<close>

record 'd platform =
  lit_0_5 :: 'd
  lit_1_0 :: 'd
  lit_2_0 :: 'd
  fmul :: "'d \<Rightarrow> 'd \<Rightarrow> 'd"
  fadd :: "'d \<Rightarrow> 'd \<Rightarrow> 'd"
  fsub :: "'d \<Rightarrow> 'd \<Rightarrow> 'd"
  fdiv :: "'d \<Rightarrow> 'd \<Rightarrow> 'd"
  ferf :: "'d \<Rightarrow> 'd"
  fsqrt :: "'d \<Rightarrow> 'd"
  strcpy_tail :: "nat \<Rightarrow> char \<Rightarrow> char"

subsection \<open>The bounded string copy of the C library\<close>

text \<open>
  \<open>strcpy_s(dest, destsz, src)\<close> is the bounded copy of \<open>string.h\<close> (C11, K.3.7.1.3); it is
  a library function, not code of the plugin. \<open>dest\<close> must be an array of \<open>destsz\<close> bytes.
  When the source string and its terminator fit into \<open>destsz\<close> bytes, they are copied and \<open>0\<close>
  is returned; the bytes of the array behind the terminator take unspecified values (some
  libraries leave them, some fill them with a marker), so the model takes from the platform
  a function \<open>tf\<close> that gives the new byte at offset \<open>i\<close> from the old one. Otherwise nothing
  is copied, the destination is made the empty string, and a non-zero code (\<open>ERANGE\<close>, 34) is
  returned.
\<close>

definition NUL :: char where
  "NUL = CHR 0x00"

definition ERANGE :: nat where
  "ERANGE = 34"

fun allocated :: "(addr \<rightharpoonup> 'v) \<Rightarrow> addr \<Rightarrow> nat \<Rightarrow> bool" where
  "allocated h p 0 = True"
| "allocated h p (Suc n) = (h p \<noteq> None \<and> allocated h (Suc p) n)"

fun write_all :: "(addr \<rightharpoonup> 'v) \<Rightarrow> addr \<Rightarrow> 'v list \<Rightarrow> (addr \<rightharpoonup> 'v)" where
  "write_all h p [] = h"
| "write_all h p (v # vs) = write_all (h(p \<mapsto> v)) (Suc p) vs"

definition behind :: "(nat \<Rightarrow> char \<Rightarrow> char) \<Rightarrow> (addr \<rightharpoonup> char) \<Rightarrow> addr \<Rightarrow> nat \<Rightarrow> nat \<Rightarrow> (addr \<rightharpoonup> char)" where
  "behind tf h dest k n =
     (\<lambda>p. if dest + k \<le> p \<and> p < dest + n then map_option (tf (p - dest)) (h p) else h p)"

definition strcpy_s ::
  "(nat \<Rightarrow> char \<Rightarrow> char) \<Rightarrow> addr \<Rightarrow> nat \<Rightarrow> string \<Rightarrow> (addr \<rightharpoonup> char) \<Rightarrow> error + nat \<times> (addr \<rightharpoonup> char)" where
  "strcpy_s tf dest destsz src h =
     (if length src < destsz then
        (if allocated h dest destsz
         then Inr (0, behind tf (write_all h dest (src @ [NUL])) dest (Suc (length src)) destsz)
         else Inl InvalidAccess)
      else if destsz = 0 then Inr (ERANGE, h)
      else (case h dest of
              None \<Rightarrow> Inl InvalidAccess
            | Some _ \<Rightarrow> Inr (ERANGE, h(dest \<mapsto> NUL))))"

subsection \<open>The four exported functions\<close>

text \<open>The string literal that \<open>GetFunctionName\<close> copies; the value returned by \<open>strcpy_s\<close> is
  discarded.\<close>

definition name_literal :: string where
  "name_literal = ''f1: GaussianCDF f1=amplitude/2*(1+erf((x-mu)/(sigma*sqrt(2))))+offset''"

definition GetFunctionName :: "'d platform \<Rightarrow> addr \<Rightarrow> 'd memory \<Rightarrow> error + 'd memory" where
  "GetFunctionName pf name m =
     (case strcpy_s (strcpy_tail pf) name 255 name_literal (chars m) of
        Inl e \<Rightarrow> Inl e
      | Inr (_, h) \<Rightarrow> Inr (m\<lparr>chars := h\<rparr>))"

text \<open>
  \<open>*y = 0.5 * a[0] * (1.0 + erf((x[0] - a[1]) / (a[2] * sqrt(2.0)))) + a[3];\<close>
  The operands are loaded, the expression is evaluated with \<open>*\<close> associating to the left
  and binding tighter than \<open>+\<close>, and the value is stored at \<open>y\<close>.
\<close>

definition GetFunctionValue :: "'d platform \<Rightarrow> addr \<Rightarrow> addr \<Rightarrow> addr \<Rightarrow> 'd memory \<Rightarrow> error + 'd memory" where
  "GetFunctionValue pf x a y m =
     (case do {
             a0 \<leftarrow> doubles m a;
             x0 \<leftarrow> doubles m x;
             a1 \<leftarrow> doubles m (a + 1);
             a2 \<leftarrow> doubles m (a + 2);
             a3 \<leftarrow> doubles m (a + 3);
             Some (fadd pf
                     (fmul pf (fmul pf (lit_0_5 pf) a0)
                        (fadd pf (lit_1_0 pf)
                           (ferf pf (fdiv pf (fsub pf x0 a1) (fmul pf a2 (fsqrt pf (lit_2_0 pf)))))))
                     a3)
           } of
        None \<Rightarrow> Inl InvalidAccess
      | Some v \<Rightarrow>
          (case doubles m y of
             None \<Rightarrow> Inl InvalidAccess
           | Some _ \<Rightarrow> Inr (m\<lparr>doubles := (doubles m)(y \<mapsto> v)\<rparr>)))"

definition GetNumParameters :: "addr \<Rightarrow> 'd memory \<Rightarrow> error + 'd memory" where
  "GetNumParameters n m =
     (case ints m n of
        None \<Rightarrow> Inl InvalidAccess
      | Some _ \<Rightarrow> Inr (m\<lparr>ints := (ints m)(n \<mapsto> 4)\<rparr>))"

definition GetNumVariables :: "addr \<Rightarrow> 'd memory \<Rightarrow> error + 'd memory" where
  "GetNumVariables n m =
     (case ints m n of
        None \<Rightarrow> Inl InvalidAccess
      | Some _ \<Rightarrow> Inr (m\<lparr>ints := (ints m)(n \<mapsto> 1)\<rparr>))"

subsection \<open>The host's side\<close>

text \<open>
  A host calls the four functions in any order, each call on the memory the previous one
  left. A run stops at the first call whose behaviour is undefined.
\<close>

datatype call =
  CallName addr
| CallValue addr addr addr
| CallNumParameters addr
| CallNumVariables addr

fun perform :: "'d platform \<Rightarrow> call \<Rightarrow> 'd memory \<Rightarrow> error + 'd memory" where
  "perform pf (CallName name) m = GetFunctionName pf name m"
| "perform pf (CallValue x a y) m = GetFunctionValue pf x a y m"
| "perform pf (CallNumParameters n) m = GetNumParameters n m"
| "perform pf (CallNumVariables n) m = GetNumVariables n m"

fun run :: "'d platform \<Rightarrow> call list \<Rightarrow> 'd memory \<Rightarrow> error + 'd memory" where
  "run pf [] m = Inr m"
| "run pf (c # cs) m = (case perform pf c m of Inl e \<Rightarrow> Inl e | Inr m' \<Rightarrow> run pf cs m')"

text \<open>An array of the host: the elements \<open>vs\<close> lie at \<open>p\<close>, \<open>p + 1\<close>, ...\<close>

fun array_at :: "(addr \<rightharpoonup> 'v) \<Rightarrow> addr \<Rightarrow> 'v list \<Rightarrow> bool" where
  "array_at h p [] = True"
| "array_at h p (v # vs) = (h p = Some v \<and> array_at h (Suc p) vs)"

text \<open>
  The string a host reads at \<open>p\<close>: the bytes up to the first terminator, if there is one
  among the first \<open>n\<close> bytes.
\<close>

fun c_string :: "(addr \<rightharpoonup> char) \<Rightarrow> addr \<Rightarrow> nat \<Rightarrow> string option" where
  "c_string h p 0 = None"
| "c_string h p (Suc n) =
     (case h p of
        None \<Rightarrow> None
      | Some c \<Rightarrow> if c = NUL then Some [] else map_option ((#) c) (c_string h (Suc p) n))"

text \<open>
  The shape the comment in \<open>GetFunctionName\<close> asks of the name: the letter \<open>f\<close>, a positive
  integer in decimal digits, a colon; anything may follow. This is the pattern of the
  specification (\<open>f\<close>, one or more digits, a colon, then any text), with the integer
  required to be positive.
\<close>

definition is_digit :: "char \<Rightarrow> bool" where
  "is_digit c = (c \<in> set ''0123456789'')"

definition decimal :: "string \<Rightarrow> nat" where
  "decimal ds = foldl (\<lambda>n c. 10 * n + (of_char c - 48)) 0 ds"

definition name_pattern :: "string \<Rightarrow> bool" where
  "name_pattern s =
     (case s of
        [] \<Rightarrow> False
      | c # r \<Rightarrow>
          c = CHR ''f'' \<and> takeWhile is_digit r \<noteq> [] \<and> 0 < decimal (takeWhile is_digit r) \<and>
          (case dropWhile is_digit r of [] \<Rightarrow> False | d # _ \<Rightarrow> d = CHR '':''))"

text \<open>
  The formula of the specification, on the variable vector \<open>x\<close> and the parameter vector
  \<open>a\<close>: \<open>0.5 * a[0] * (1 + erf((x[0]-a[1]) / (a[2]*sqrt(2)))) + a[3]\<close>.
\<close>

definition gaussian_cdf :: "'d platform \<Rightarrow> 'd list \<Rightarrow> 'd list \<Rightarrow> 'd" where
  "gaussian_cdf pf x a =
     fadd pf
       (fmul pf (fmul pf (lit_0_5 pf) (a ! 0))
          (fadd pf (lit_1_0 pf)
             (ferf pf (fdiv pf (fsub pf (x ! 0) (a ! 1)) (fmul pf (a ! 2) (fsqrt pf (lit_2_0 pf)))))))
       (a ! 3)"

subsection \<open>A platform to compute with\<close>

text \<open>
  The free arithmetic: its values are the expressions themselves, and every operation builds
  the expression that names it. Running the plugin in it shows which operations the code
  performs, on which operands and in which order. Its \<open>strcpy_s\<close> leaves the bytes behind the
  terminator as they were.
\<close>

datatype expr =
  Lit string
| Mul expr expr
| Add expr expr
| Sub expr expr
| Div expr expr
| Erf expr
| Sqrt expr

definition symbolic :: "expr platform" where
  "symbolic = \<lparr>lit_0_5 = Lit ''0.5'', lit_1_0 = Lit ''1.0'', lit_2_0 = Lit ''2.0'',
                fmul = Mul, fadd = Add, fsub = Sub, fdiv = Div, ferf = Erf, fsqrt = Sqrt,
                strcpy_tail = (\<lambda>i c. c)\<rparr>"

text \<open>
  A memory of a host: the variable array \<open>x = [0.0]\<close> at location 0 of the doubles, the
  parameter array \<open>a = [2.0, 0.0, 1.0, 1.0]\<close> at locations 1 to 4, a cell for the result at
  location 5; two \<open>int\<close> cells; a buffer of 255 bytes for the name.
\<close>

definition host_memory :: "expr memory" where
  "host_memory =
     \<lparr>chars = (\<lambda>p. if p < 255 then Some CHR ''?'' else None),
      ints = [0 \<mapsto> 0, 1 \<mapsto> 0],
      doubles = [0 \<mapsto> Lit ''0.0'', 1 \<mapsto> Lit ''2.0'', 2 \<mapsto> Lit ''0.0'', 3 \<mapsto> Lit ''1.0'',
                 4 \<mapsto> Lit ''1.0'', 5 \<mapsto> Lit ''0.0'']\<rparr>"

text \<open>
  A second host, whose arrays are longer than the plugin's counts: \<open>x = [0.0, 7.0]\<close> at
  locations 0 and 1, \<open>a = [2.0, 0.0, 1.0, 1.0, 9.0]\<close> at locations 2 to 6, the result cell at
  location 7. Its name buffer has 10 bytes, at locations 0 to 9 of the chars; the 290 bytes
  behind it hold other data of the host.
\<close>

definition crowded_memory :: "expr memory" where
  "crowded_memory =
     \<lparr>chars = (\<lambda>p. if p < 10 then Some CHR ''?'' else if p < 300 then Some CHR ''#'' else None),
      ints = [0 \<mapsto> 0],
      doubles = [0 \<mapsto> Lit ''0.0'', 1 \<mapsto> Lit ''7.0'', 2 \<mapsto> Lit ''2.0'', 3 \<mapsto> Lit ''0.0'',
                 4 \<mapsto> Lit ''1.0'', 5 \<mapsto> Lit ''1.0'', 6 \<mapsto> Lit ''9.0'', 7 \<mapsto> Lit ''0.0'']\<rparr>"

section \<open>Properties\<close>

subsection \<open>Arrays, copies and strings in memory\<close>

lemma array_at_nth:
  "array_at h p vs \<Longrightarrow> i < length vs \<Longrightarrow> h (p + i) = Some (vs ! i)"
proof (induction vs arbitrary: p i)
  case Nil
  then show ?case by simp
next
  case (Cons v vs)
  show ?case
  proof (cases i)
    case 0
    with Cons.prems show ?thesis by simp
  next
    case (Suc j)
    with Cons.prems have "h (Suc p + j) = Some (vs ! j)"
      by (intro Cons.IH) simp_all
    with Suc show ?thesis by simp
  qed
qed

lemma allocated_iff: "allocated h p n \<longleftrightarrow> (\<forall>i<n. h (p + i) \<noteq> None)"
proof (induction n arbitrary: p)
  case 0
  show ?case by simp
next
  case (Suc n)
  have "(\<forall>i<Suc n. h (p + i) \<noteq> None) \<longleftrightarrow> h p \<noteq> None \<and> (\<forall>i<n. h (Suc p + i) \<noteq> None)"
    by (auto simp: less_Suc_eq_0_disj)
  with Suc show ?case by simp
qed

lemma write_all_outside: "q < p \<or> p + length vs \<le> q \<Longrightarrow> write_all h p vs q = h q"
  by (induction vs arbitrary: h p) auto

lemma write_all_array: "array_at (write_all h p vs) p vs"
proof (induction vs arbitrary: h p)
  case Nil
  show ?case by simp
next
  case (Cons v vs)
  have "write_all (h(p \<mapsto> v)) (Suc p) vs p = (h(p \<mapsto> v)) p"
    by (rule write_all_outside) simp
  with Cons show ?case by simp
qed

lemma c_string_array:
  "array_at h p (s @ [NUL]) \<Longrightarrow> NUL \<notin> set s \<Longrightarrow> length s < n \<Longrightarrow> c_string h p n = Some s"
proof (induction s arbitrary: p n)
  case Nil
  then show ?case by (cases n) simp_all
next
  case (Cons c s)
  then show ?case by (cases n) auto
qed

lemma name_literal_facts:
  "length name_literal = 69" "NUL \<notin> set name_literal" "name_pattern name_literal" "name_literal \<noteq> []"
  by (simp_all add: name_literal_def NUL_def name_pattern_def is_digit_def decimal_def)

lemma GetFunctionValue_arrays:
  assumes "array_at (doubles m) x xs" and "array_at (doubles m) a as"
    and "1 \<le> length xs" and "4 \<le> length as" and "doubles m y \<noteq> None"
  shows "GetFunctionValue pf x a y m = Inr (m\<lparr>doubles := (doubles m)(y \<mapsto> gaussian_cdf pf xs as)\<rparr>)"
proof -
  have "0 < length xs" and lens: "0 < length as" "1 < length as" "2 < length as" "3 < length as"
    using assms(3,4) by (auto simp: Suc_le_eq)
  then have "doubles m (x + 0) = Some (xs ! 0)"
    by (intro array_at_nth [OF assms(1)])
  moreover have "doubles m (a + 0) = Some (as ! 0)" "doubles m (a + 1) = Some (as ! 1)"
    "doubles m (a + 2) = Some (as ! 2)" "doubles m (a + 3) = Some (as ! 3)"
    using lens by (intro array_at_nth [OF assms(2)]; simp)+
  ultimately show ?thesis
    using assms(5) by (auto simp: GetFunctionValue_def gaussian_cdf_def)
qed


lemma GetFunctionValue_fails_iff:
  "(\<exists>e. GetFunctionValue pf x a y m = Inl e) \<longleftrightarrow>
     \<not> (allocated (doubles m) x 1 \<and> allocated (doubles m) a 4 \<and> allocated (doubles m) y 1)"
proof -
  have "allocated (doubles m) a 4 \<longleftrightarrow>
        doubles m a \<noteq> None \<and> doubles m (a + 1) \<noteq> None \<and> doubles m (a + 2) \<noteq> None \<and> doubles m (a + 3) \<noteq> None"
    by (simp add: numeral_eq_Suc)
  moreover have "allocated (doubles m) x 1 \<longleftrightarrow> doubles m x \<noteq> None"
    "allocated (doubles m) y 1 \<longleftrightarrow> doubles m y \<noteq> None"
    by simp_all
  ultimately show ?thesis
    by (auto simp: GetFunctionValue_def simp del: allocated.simps split: option.splits Option.bind_splits)
qed

lemma GetFunctionValue_Inr:
  assumes "GetFunctionValue pf x a y m = Inr m'"
  shows "\<exists>v. m' = m\<lparr>doubles := (doubles m)(y \<mapsto> v)\<rparr> \<and> doubles m y \<noteq> None"
  using assms by (auto simp: GetFunctionValue_def split: option.splits)

lemma GetFunctionValue_frame:
  assumes "GetFunctionValue pf x a y m = Inr m'"
  shows "chars m' = chars m" "ints m' = ints m" "\<forall>p. p \<noteq> y \<longrightarrow> doubles m' p = doubles m p"
    "dom (doubles m') = dom (doubles m)"
  using GetFunctionValue_Inr [OF assms] by (auto simp: insert_absorb domI split: if_splits)

lemma array_at_iff: "array_at h p vs \<longleftrightarrow> (\<forall>i<length vs. h (p + i) = Some (vs ! i))"
proof (induction vs arbitrary: p)
  case Nil
  show ?case by simp
next
  case (Cons v vs)
  have "(\<forall>i<length (v # vs). h (p + i) = Some ((v # vs) ! i)) \<longleftrightarrow>
        h p = Some v \<and> (\<forall>i<length vs. h (Suc p + i) = Some (vs ! i))"
    by (auto simp: less_Suc_eq_0_disj)
  with Cons show ?case by simp
qed

lemma array_at_cong:
  "\<forall>i<length vs. h' (p + i) = h (p + i) \<Longrightarrow> array_at h' p vs = array_at h p vs"
  by (simp add: array_at_iff)

lemma behind_outside: "p < dest + k \<or> dest + n \<le> p \<Longrightarrow> behind tf h dest k n p = h p"
  by (auto simp: behind_def)

lemma GetFunctionName_eq:
  "GetFunctionName pf name m =
     (if allocated (chars m) name 255
      then Inr (m\<lparr>chars := behind (strcpy_tail pf) (write_all (chars m) name (name_literal @ [NUL]))
                                name 70 255\<rparr>)
      else Inl InvalidAccess)"
proof -
  have "length name_literal < 255" "Suc (length name_literal) = 70"
    by (simp_all add: name_literal_facts(1))
  then show ?thesis
    by (simp add: GetFunctionName_def strcpy_s_def del: allocated.simps)
qed

lemma name_written:
  "array_at (behind tf (write_all h name (name_literal @ [NUL])) name 70 255) name (name_literal @ [NUL])"
proof -
  have "\<forall>i<length (name_literal @ [NUL]).
          behind tf (write_all h name (name_literal @ [NUL])) name 70 255 (name + i)
          = write_all h name (name_literal @ [NUL]) (name + i)"
    by (simp add: behind_outside name_literal_facts(1))
  from array_at_cong [OF this] show ?thesis
    by (simp add: write_all_array)
qed

lemma name_frame:
  assumes "p < name \<or> name + 255 \<le> p"
  shows "behind tf (write_all h name (name_literal @ [NUL])) name 70 255 p = h p"
proof -
  have "behind tf (write_all h name (name_literal @ [NUL])) name 70 255 p
        = write_all h name (name_literal @ [NUL]) p"
    using assms by (intro behind_outside) auto
  also have "\<dots> = h p"
    using assms by (intro write_all_outside) (auto simp: name_literal_facts(1))
  finally show ?thesis .
qed

lemma name_read_back:
  "70 \<le> n \<Longrightarrow>
   c_string (behind tf (write_all h name (name_literal @ [NUL])) name 70 255) name n = Some name_literal"
  by (rule c_string_array [OF name_written]) (simp_all add: name_literal_facts)

lemma allocated_mono: "allocated h p n \<Longrightarrow> k \<le> n \<Longrightarrow> allocated h p k"
  by (auto simp: allocated_iff)

subsection \<open>The two counts\<close>

text \<open>
  C2. Whatever calls the host has made before, and whatever the memory holds,
  \<open>GetNumParameters\<close> stores the constant 4 and \<open>GetNumVariables\<close> the constant 1 at the
  location \<open>n\<close> it is given, and does nothing else. The memory \<open>m\<close> is the one left by an
  arbitrary run \<open>cs\<close> of earlier calls on an arbitrary platform.
\<close>

theorem GetNum_constant:
  assumes "run pf cs m0 = Inr m" and "ints m n \<noteq> None"
  shows "GetNumParameters n m = Inr (m\<lparr>ints := (ints m)(n \<mapsto> 4)\<rparr>)
       \<and> GetNumVariables n m = Inr (m\<lparr>ints := (ints m)(n \<mapsto> 1)\<rparr>)"
  using assms(2) by (auto simp: GetNumParameters_def GetNumVariables_def)

theorem GetNum_constant_witness:
  "run symbolic [CallNumVariables 1] host_memory = Inr (host_memory\<lparr>ints := (ints host_memory)(1 \<mapsto> 1)\<rparr>)
   \<and> ints (host_memory\<lparr>ints := (ints host_memory)(1 \<mapsto> 1)\<rparr>) 1 \<noteq> None
   \<and> GetNumParameters 1 (host_memory\<lparr>ints := (ints host_memory)(1 \<mapsto> 1)\<rparr>)
       = Inr (host_memory\<lparr>ints := (ints host_memory)(1 \<mapsto> 4)\<rparr>)
   \<and> GetNumVariables 1 (host_memory\<lparr>ints := (ints host_memory)(1 \<mapsto> 1)\<rparr>)
       = Inr (host_memory\<lparr>ints := (ints host_memory)(1 \<mapsto> 1)\<rparr>)"
proof -
  have r: "run symbolic [CallNumVariables 1] host_memory
           = Inr (host_memory\<lparr>ints := (ints host_memory)(1 \<mapsto> 1)\<rparr>)"
    by (simp add: GetNumVariables_def host_memory_def)
  have v: "ints (host_memory\<lparr>ints := (ints host_memory)(1 \<mapsto> 1)\<rparr>) 1 \<noteq> None"
    by simp
  show ?thesis using r v GetNum_constant [OF r v] by simp
qed

subsection \<open>The value of the function\<close>

text \<open>
  C1. When the variable array \<open>x\<close> has one element, the parameter array \<open>a\<close> has four and
  \<open>y\<close> is a cell of the host, \<open>GetFunctionValue\<close> stores at \<open>y\<close> exactly the value of the
  specification's formula \<open>0.5 * a[0] * (1 + erf((x[0]-a[1]) / (a[2]*sqrt(2)))) + a[3]\<close> on
  these arrays, in whatever arithmetic the platform provides, and returns.
\<close>

theorem GetFunctionValue_formula:
  assumes "length xs = 1" and "length as = 4"
    and "array_at (doubles m) x xs" and "array_at (doubles m) a as"
    and "doubles m y \<noteq> None"
  shows "GetFunctionValue pf x a y m = Inr (m\<lparr>doubles := (doubles m)(y \<mapsto> gaussian_cdf pf xs as)\<rparr>)"
  using assms by (intro GetFunctionValue_arrays) simp_all

theorem GetFunctionValue_formula_witness:
  "length [Lit ''0.0''] = 1 \<and> length [Lit ''2.0'', Lit ''0.0'', Lit ''1.0'', Lit ''1.0''] = 4
   \<and> array_at (doubles host_memory) 0 [Lit ''0.0'']
   \<and> array_at (doubles host_memory) 1 [Lit ''2.0'', Lit ''0.0'', Lit ''1.0'', Lit ''1.0'']
   \<and> doubles host_memory 5 \<noteq> None
   \<and> GetFunctionValue symbolic 0 1 5 host_memory
       = Inr (host_memory\<lparr>doubles := (doubles host_memory)(5 \<mapsto>
           Add (Mul (Mul (Lit ''0.5'') (Lit ''2.0''))
                  (Add (Lit ''1.0'')
                     (Erf (Div (Sub (Lit ''0.0'') (Lit ''0.0'')) (Mul (Lit ''1.0'') (Sqrt (Lit ''2.0'')))))))
               (Lit ''1.0''))\<rparr>)"
proof -
  have h: "array_at (doubles host_memory) 0 [Lit ''0.0'']"
    "array_at (doubles host_memory) 1 [Lit ''2.0'', Lit ''0.0'', Lit ''1.0'', Lit ''1.0'']"
    "doubles host_memory 5 \<noteq> None"
    by (simp_all add: host_memory_def)
  show ?thesis
    using h GetFunctionValue_formula [OF _ _ h, of symbolic]
    by (simp add: gaussian_cdf_def symbolic_def)
qed

subsection \<open>The name of the function\<close>

text \<open>
  C3. Given the buffer of 255 bytes that the interface asks of the host, \<open>GetFunctionName\<close>
  always writes the same string, whatever the buffer held, wherever it lies and on every
  platform: the 69 characters of the literal followed by the terminator, so that the host
  reads the literal back. The string is not empty, it has the shape \<open>f\<close>, positive integer,
  colon, free text, and with its terminator it is shorter than 255 bytes.
\<close>

theorem GetFunctionName_string:
  assumes "allocated (chars m) name 255"
  shows "(\<exists>m'. GetFunctionName pf name m = Inr m'
            \<and> array_at (chars m') name (name_literal @ [NUL])
            \<and> c_string (chars m') name 255 = Some name_literal)
       \<and> name_literal \<noteq> [] \<and> name_pattern name_literal \<and> length name_literal + 1 < 255"
  using assms by (simp add: GetFunctionName_eq name_written name_read_back name_literal_facts)

theorem GetFunctionName_string_witness:
  "allocated (chars host_memory) 0 255
   \<and> \<not> isl (GetFunctionName symbolic 0 host_memory)
   \<and> c_string (chars (projr (GetFunctionName symbolic 0 host_memory))) 0 255
       = Some ''f1: GaussianCDF f1=amplitude/2*(1+erf((x-mu)/(sigma*sqrt(2))))+offset''
   \<and> name_pattern ''f1: GaussianCDF f1=amplitude/2*(1+erf((x-mu)/(sigma*sqrt(2))))+offset''
   \<and> length ''f1: GaussianCDF f1=amplitude/2*(1+erf((x-mu)/(sigma*sqrt(2))))+offset'' + 1 = 70"
proof -
  have h: "allocated (chars host_memory) 0 255"
    by (simp add: allocated_iff host_memory_def)
  from GetFunctionName_string [OF h, of symbolic] obtain m'
    where "GetFunctionName symbolic 0 host_memory = Inr m'"
      and "c_string (chars m') 0 255 = Some name_literal"
      and "name_pattern name_literal" "length name_literal + 1 < 255"
    by blast
  then show ?thesis
    using h by (simp add: name_literal_def)
qed

subsection \<open>The operands of the function\<close>

text \<open>
  C9. The value that \<open>GetFunctionValue\<close> stores depends on \<open>x[0]\<close> and \<open>a[0..3]\<close> only. Two
  calls, in any two memories and on arrays of any lengths (at least 1 and 4), store the same
  value whenever the arrays agree at index 0 and at indices 0 to 3; further elements and
  the rest of the memory have no influence.
\<close>

theorem GetFunctionValue_depends_only:
  assumes "array_at (doubles m1) x1 xs1" and "array_at (doubles m1) a1 as1"
    and "array_at (doubles m2) x2 xs2" and "array_at (doubles m2) a2 as2"
    and "1 \<le> length xs1" and "1 \<le> length xs2" and "4 \<le> length as1" and "4 \<le> length as2"
    and "xs1 ! 0 = xs2 ! 0" and "\<forall>i<4. as1 ! i = as2 ! i"
    and "doubles m1 y1 \<noteq> None" and "doubles m2 y2 \<noteq> None"
  shows "\<exists>v. GetFunctionValue pf x1 a1 y1 m1 = Inr (m1\<lparr>doubles := (doubles m1)(y1 \<mapsto> v)\<rparr>)
            \<and> GetFunctionValue pf x2 a2 y2 m2 = Inr (m2\<lparr>doubles := (doubles m2)(y2 \<mapsto> v)\<rparr>)"
proof -
  have "as1 ! 0 = as2 ! 0" "as1 ! 1 = as2 ! 1" "as1 ! 2 = as2 ! 2" "as1 ! 3 = as2 ! 3"
    using assms(10) by simp_all
  with assms(9) have "gaussian_cdf pf xs1 as1 = gaussian_cdf pf xs2 as2"
    by (simp add: gaussian_cdf_def)
  moreover have "GetFunctionValue pf x1 a1 y1 m1
                 = Inr (m1\<lparr>doubles := (doubles m1)(y1 \<mapsto> gaussian_cdf pf xs1 as1)\<rparr>)"
    using assms by (intro GetFunctionValue_arrays)
  moreover have "GetFunctionValue pf x2 a2 y2 m2
                 = Inr (m2\<lparr>doubles := (doubles m2)(y2 \<mapsto> gaussian_cdf pf xs2 as2)\<rparr>)"
    using assms by (intro GetFunctionValue_arrays)
  ultimately show ?thesis
    by (intro exI [of _ "gaussian_cdf pf xs2 as2"]) simp
qed

theorem GetFunctionValue_depends_only_witness:
  "array_at (doubles host_memory) 0 [Lit ''0.0'']
   \<and> array_at (doubles host_memory) 1 [Lit ''2.0'', Lit ''0.0'', Lit ''1.0'', Lit ''1.0'']
   \<and> array_at (doubles crowded_memory) 0 [Lit ''0.0'', Lit ''7.0'']
   \<and> array_at (doubles crowded_memory) 2 [Lit ''2.0'', Lit ''0.0'', Lit ''1.0'', Lit ''1.0'', Lit ''9.0'']
   \<and> (\<exists>v. GetFunctionValue symbolic 0 1 5 host_memory
              = Inr (host_memory\<lparr>doubles := (doubles host_memory)(5 \<mapsto> v)\<rparr>)
          \<and> GetFunctionValue symbolic 0 2 7 crowded_memory
              = Inr (crowded_memory\<lparr>doubles := (doubles crowded_memory)(7 \<mapsto> v)\<rparr>))"
proof -
  have h: "array_at (doubles host_memory) 0 [Lit ''0.0'']"
    "array_at (doubles host_memory) 1 [Lit ''2.0'', Lit ''0.0'', Lit ''1.0'', Lit ''1.0'']"
    by (simp_all add: host_memory_def)
  have c: "array_at (doubles crowded_memory) 0 [Lit ''0.0'', Lit ''7.0'']"
    "array_at (doubles crowded_memory) 2 [Lit ''2.0'', Lit ''0.0'', Lit ''1.0'', Lit ''1.0'', Lit ''9.0'']"
    by (simp_all add: crowded_memory_def)
  have e: "\<forall>i<4. [Lit ''2.0'', Lit ''0.0'', Lit ''1.0'', Lit ''1.0''] ! i
                 = [Lit ''2.0'', Lit ''0.0'', Lit ''1.0'', Lit ''1.0'', Lit ''9.0''] ! i"
    by (simp add: less_Suc_eq numeral_eq_Suc)
  have y: "doubles host_memory 5 \<noteq> None" "doubles crowded_memory 7 \<noteq> None"
    by (simp_all add: host_memory_def crowded_memory_def)
  show ?thesis
    using h c GetFunctionValue_depends_only [OF h c _ _ _ _ _ e y, of symbolic] by simp
qed

subsection \<open>What the plugin does not check\<close>

text \<open>
  C7, as amended. \<open>GetFunctionValue\<close> receives no lengths and performs no arity check. For
  every call in which the variable array holds at least 1 element and the parameter array
  at least 4, longer arrays included, it returns and stores the value of the formula on the
  first element of \<open>x\<close> and the first four of \<open>a\<close>.
\<close>

theorem GetFunctionValue_no_arity_check:
  assumes "array_at (doubles m) x xs" and "array_at (doubles m) a as"
    and "1 \<le> length xs" and "4 \<le> length as" and "doubles m y \<noteq> None"
  shows "GetFunctionValue pf x a y m
         = Inr (m\<lparr>doubles := (doubles m)(y \<mapsto> gaussian_cdf pf (take 1 xs) (take 4 as))\<rparr>)"
proof -
  have "gaussian_cdf pf (take 1 xs) (take 4 as) = gaussian_cdf pf xs as"
    by (simp add: gaussian_cdf_def)
  with GetFunctionValue_arrays [OF assms] show ?thesis by simp
qed

theorem GetFunctionValue_no_arity_check_witness:
  "array_at (doubles crowded_memory) 0 [Lit ''0.0'', Lit ''7.0'']
   \<and> array_at (doubles crowded_memory) 2 [Lit ''2.0'', Lit ''0.0'', Lit ''1.0'', Lit ''1.0'', Lit ''9.0'']
   \<and> doubles crowded_memory 7 \<noteq> None
   \<and> GetFunctionValue symbolic 0 2 7 crowded_memory
       = Inr (crowded_memory\<lparr>doubles := (doubles crowded_memory)(7 \<mapsto>
           gaussian_cdf symbolic [Lit ''0.0''] [Lit ''2.0'', Lit ''0.0'', Lit ''1.0'', Lit ''1.0''])\<rparr>)"
proof -
  have h: "array_at (doubles crowded_memory) 0 [Lit ''0.0'', Lit ''7.0'']"
    "array_at (doubles crowded_memory) 2 [Lit ''2.0'', Lit ''0.0'', Lit ''1.0'', Lit ''1.0'', Lit ''9.0'']"
    by (simp_all add: crowded_memory_def)
  have y: "doubles crowded_memory 7 \<noteq> None"
    by (simp add: crowded_memory_def)
  show ?thesis
    using h y GetFunctionValue_no_arity_check [OF h _ _ y, of symbolic] by simp
qed

text \<open>
  The claim as stated asks for a failure when the arrays do not have exactly 1 and 4
  elements. The second host passes a variable array of 2 elements and a parameter array of
  5: the call returns with the value stored.
\<close>

theorem GetFunctionValue_arity_counterexample:
  "array_at (doubles crowded_memory) 0 [Lit ''0.0'', Lit ''7.0'']
   \<and> array_at (doubles crowded_memory) 2 [Lit ''2.0'', Lit ''0.0'', Lit ''1.0'', Lit ''1.0'', Lit ''9.0'']
   \<and> GetFunctionValue symbolic 0 2 7 crowded_memory
       = Inr (crowded_memory\<lparr>doubles := (doubles crowded_memory)(7 \<mapsto>
           Add (Mul (Mul (Lit ''0.5'') (Lit ''2.0''))
                  (Add (Lit ''1.0'')
                     (Erf (Div (Sub (Lit ''0.0'') (Lit ''0.0'')) (Mul (Lit ''1.0'') (Sqrt (Lit ''2.0'')))))))
               (Lit ''1.0''))\<rparr>)"
  by (simp add: crowded_memory_def GetFunctionValue_def symbolic_def)

text \<open>
  C8, as amended. \<open>GetFunctionName\<close> receives no capacity and performs no check of its own
  against the host's buffer; it hands the fixed bound 255 to \<open>strcpy_s\<close>. With a buffer of
  at least 255 bytes, as the interface asks, it returns, the host reads the complete name
  back, and no byte outside the first 255 of the buffer is changed. The name is never
  truncated: whenever the call returns, all 69 characters and the terminator are written.
\<close>

theorem GetFunctionName_capacity:
  "(allocated (chars m) name cap \<and> 255 \<le> cap \<longrightarrow>
      (\<exists>m'. GetFunctionName pf name m = Inr m'
         \<and> c_string (chars m') name cap = Some name_literal
         \<and> (\<forall>p. p < name \<or> name + 255 \<le> p \<longrightarrow> chars m' p = chars m p)))
   \<and> (GetFunctionName pf name m = Inr m'' \<longrightarrow> array_at (chars m'') name (name_literal @ [NUL]))"
proof -
  have "allocated (chars m) name 255" if "allocated (chars m) name cap" "255 \<le> cap"
    using that by (rule allocated_mono)
  moreover have "array_at (chars m'') name (name_literal @ [NUL])"
    if "GetFunctionName pf name m = Inr m''"
    using that by (auto simp: GetFunctionName_eq name_written split: if_splits)
  ultimately show ?thesis
    by (auto simp: GetFunctionName_eq name_read_back name_frame)
qed

theorem GetFunctionName_capacity_witness:
  "allocated (chars crowded_memory) 0 300 \<and> (255::nat) \<le> 300
   \<and> \<not> isl (GetFunctionName symbolic 0 crowded_memory)
   \<and> c_string (chars (projr (GetFunctionName symbolic 0 crowded_memory))) 0 300 = Some name_literal
   \<and> array_at (chars (projr (GetFunctionName symbolic 0 crowded_memory))) 0 (name_literal @ [NUL])
   \<and> chars (projr (GetFunctionName symbolic 0 crowded_memory)) 255 = chars crowded_memory 255"
proof -
  have h: "allocated (chars crowded_memory) 0 300"
    by (simp add: allocated_iff crowded_memory_def)
  from GetFunctionName_capacity [of crowded_memory 0 300 symbolic] h obtain m'
    where r: "GetFunctionName symbolic 0 crowded_memory = Inr m'"
      and s: "c_string (chars m') 0 300 = Some name_literal"
      and f: "\<forall>p. p < 0 \<or> 0 + 255 \<le> p \<longrightarrow> chars m' p = chars crowded_memory p"
    by auto
  from GetFunctionName_capacity [of crowded_memory 0 300 symbolic m'] r
  have "array_at (chars m') 0 (name_literal @ [NUL])"
    by blast
  with h r s f show ?thesis by simp
qed

text \<open>
  The claim as stated asks for a failure when the buffer is too small. The second host's
  buffer has 10 bytes: the call returns, and the bytes behind the buffer, up to the
  terminator at offset 69, are overwritten.
\<close>

theorem GetFunctionName_small_buffer_counterexample:
  "allocated (chars crowded_memory) 0 10
   \<and> \<not> isl (GetFunctionName symbolic 0 crowded_memory)
   \<and> chars crowded_memory 10 = Some CHR ''#''
   \<and> chars (projr (GetFunctionName symbolic 0 crowded_memory)) 10 = Some CHR ''a''
   \<and> chars crowded_memory 69 = Some CHR ''#''
   \<and> chars (projr (GetFunctionName symbolic 0 crowded_memory)) 69 = Some NUL"
proof -
  let ?h = "behind (strcpy_tail symbolic) (write_all (chars crowded_memory) 0 (name_literal @ [NUL])) 0 70 255"
  have "allocated (chars crowded_memory) 0 n" if "n \<le> 300" for n
    using that by (simp add: allocated_iff crowded_memory_def)
  then have a: "allocated (chars crowded_memory) 0 10" "allocated (chars crowded_memory) 0 255"
    by simp_all
  then have r: "GetFunctionName symbolic 0 crowded_memory = Inr (crowded_memory\<lparr>chars := ?h\<rparr>)"
    by (simp add: GetFunctionName_eq)
  have "?h (0 + i) = Some ((name_literal @ [NUL]) ! i)" if "i < 70" for i
    using that by (intro array_at_nth [OF name_written]) (simp add: name_literal_facts)
  from this [of 10] this [of 69]
  have "?h 10 = Some CHR ''a''" "?h 69 = Some NUL"
    by (simp_all add: name_literal_def)
  with a(1) r show ?thesis
    by (simp add: crowded_memory_def)
qed

subsection \<open>What a call changes\<close>

text \<open>
  C10, as amended. Every operation writes only through its designated output pointer and
  changes nothing else. \<open>GetFunctionValue\<close> writes only the single scalar \<open>*y\<close>: every other
  cell keeps its value, so the input arrays \<open>x\<close> and \<open>a\<close>, and any other array, are unchanged
  whenever \<open>y\<close> does not point into them. \<open>GetNumParameters\<close> and \<open>GetNumVariables\<close> write
  only \<open>*n\<close>. \<open>GetFunctionName\<close> writes only into the buffer at \<open>name\<close>. No operation changes
  any other part of the state, which the three heaps of the memory make up.
\<close>

theorem writes_only_output:
  "(GetFunctionValue pf x a y m = Inr mv \<longrightarrow>
      chars mv = chars m \<and> ints mv = ints m \<and> (\<forall>p. p \<noteq> y \<longrightarrow> doubles mv p = doubles m p)
      \<and> (\<forall>p vs. array_at (doubles m) p vs \<and> (y < p \<or> p + length vs \<le> y)
            \<longrightarrow> array_at (doubles mv) p vs))
   \<and> (GetNumParameters n m = Inr mp \<longrightarrow>
      chars mp = chars m \<and> doubles mp = doubles m \<and> (\<forall>p. p \<noteq> n \<longrightarrow> ints mp p = ints m p))
   \<and> (GetNumVariables n m = Inr mn \<longrightarrow>
      chars mn = chars m \<and> doubles mn = doubles m \<and> (\<forall>p. p \<noteq> n \<longrightarrow> ints mn p = ints m p))
   \<and> (GetFunctionName pf name m = Inr mc \<longrightarrow>
      ints mc = ints m \<and> doubles mc = doubles m
      \<and> (\<forall>p. p < name \<or> name + 255 \<le> p \<longrightarrow> chars mc p = chars m p))"
proof -
  have "array_at (doubles mv) p vs"
    if "GetFunctionValue pf x a y m = Inr mv" "array_at (doubles m) p vs" "y < p \<or> p + length vs \<le> y"
    for p vs
  proof -
    have "\<forall>i<length vs. doubles mv (p + i) = doubles m (p + i)"
      using GetFunctionValue_frame(3) [OF that(1)] that(3) by auto
    from array_at_cong [OF this] that(2) show ?thesis by simp
  qed
  moreover have "chars mp = chars m \<and> doubles mp = doubles m \<and> (\<forall>p. p \<noteq> n \<longrightarrow> ints mp p = ints m p)"
    if "GetNumParameters n m = Inr mp"
    using that by (auto simp: GetNumParameters_def split: option.splits)
  moreover have "chars mn = chars m \<and> doubles mn = doubles m \<and> (\<forall>p. p \<noteq> n \<longrightarrow> ints mn p = ints m p)"
    if "GetNumVariables n m = Inr mn"
    using that by (auto simp: GetNumVariables_def split: option.splits)
  moreover have "ints mc = ints m \<and> doubles mc = doubles m
                 \<and> (\<forall>p. p < name \<or> name + 255 \<le> p \<longrightarrow> chars mc p = chars m p)"
    if "GetFunctionName pf name m = Inr mc"
    using that by (auto simp: GetFunctionName_eq name_frame split: if_splits)
  ultimately show ?thesis
    using GetFunctionValue_frame(1,2,3) [of pf x a y m mv] by blast
qed

theorem writes_only_output_witness:
  "GetFunctionValue symbolic 0 1 5 host_memory
     = Inr (host_memory\<lparr>doubles := (doubles host_memory)(5 \<mapsto>
         gaussian_cdf symbolic [Lit ''0.0''] [Lit ''2.0'', Lit ''0.0'', Lit ''1.0'', Lit ''1.0''])\<rparr>)
   \<and> array_at (doubles (host_memory\<lparr>doubles := (doubles host_memory)(5 \<mapsto>
         gaussian_cdf symbolic [Lit ''0.0''] [Lit ''2.0'', Lit ''0.0'', Lit ''1.0'', Lit ''1.0''])\<rparr>)) 1
         [Lit ''2.0'', Lit ''0.0'', Lit ''1.0'', Lit ''1.0'']
   \<and> GetNumParameters 0 host_memory = Inr (host_memory\<lparr>ints := (ints host_memory)(0 \<mapsto> 4)\<rparr>)
   \<and> ints (host_memory\<lparr>ints := (ints host_memory)(0 \<mapsto> 4)\<rparr>) 1 = ints host_memory 1
   \<and> GetNumVariables 0 host_memory = Inr (host_memory\<lparr>ints := (ints host_memory)(0 \<mapsto> 1)\<rparr>)
   \<and> \<not> isl (GetFunctionName symbolic 0 crowded_memory)
   \<and> chars (projr (GetFunctionName symbolic 0 crowded_memory)) 255 = chars crowded_memory 255
   \<and> ints (projr (GetFunctionName symbolic 0 crowded_memory)) = ints crowded_memory"
proof -
  let ?mv = "host_memory\<lparr>doubles := (doubles host_memory)(5 \<mapsto>
         gaussian_cdf symbolic [Lit ''0.0''] [Lit ''2.0'', Lit ''0.0'', Lit ''1.0'', Lit ''1.0''])\<rparr>"
  let ?mp = "host_memory\<lparr>ints := (ints host_memory)(0 \<mapsto> 4)\<rparr>"
  let ?mn = "host_memory\<lparr>ints := (ints host_memory)(0 \<mapsto> 1)\<rparr>"
  have a: "array_at (doubles host_memory) 1 [Lit ''2.0'', Lit ''0.0'', Lit ''1.0'', Lit ''1.0'']"
    by (simp add: host_memory_def)
  have v: "GetFunctionValue symbolic 0 1 5 host_memory = Inr ?mv"
    by (simp add: GetFunctionValue_def gaussian_cdf_def host_memory_def)
  have p: "GetNumParameters 0 host_memory = Inr ?mp" and n: "GetNumVariables 0 host_memory = Inr ?mn"
    by (simp_all add: GetNumParameters_def GetNumVariables_def host_memory_def)
  from writes_only_output [of symbolic 0 1 5 host_memory ?mv 0 ?mp ?mn] v p n
  have "(\<forall>p vs. array_at (doubles host_memory) p vs \<and> (5 < p \<or> p + length vs \<le> 5)
            \<longrightarrow> array_at (doubles ?mv) p vs)"
    and "\<forall>p. p \<noteq> 0 \<longrightarrow> ints ?mp p = ints host_memory p"
    by blast+
  with a have "array_at (doubles ?mv) 1 [Lit ''2.0'', Lit ''0.0'', Lit ''1.0'', Lit ''1.0'']"
    "ints ?mp 1 = ints host_memory 1"
    by simp_all
  moreover have "allocated (chars crowded_memory) 0 255"
    by (simp add: allocated_iff crowded_memory_def)
  then obtain mc where c: "GetFunctionName symbolic 0 crowded_memory = Inr mc"
    by (simp add: GetFunctionName_eq)
  from writes_only_output [where pf = symbolic and m = crowded_memory and name = 0 and mc = mc] c
  have "ints mc = ints crowded_memory"
    and "\<forall>p. p < 0 \<or> 0 + 255 \<le> p \<longrightarrow> chars mc p = chars crowded_memory p"
    by blast+
  with c have "\<not> isl (GetFunctionName symbolic 0 crowded_memory)"
    "chars (projr (GetFunctionName symbolic 0 crowded_memory)) 255 = chars crowded_memory 255"
    "ints (projr (GetFunctionName symbolic 0 crowded_memory)) = ints crowded_memory"
    by simp_all
  ultimately show ?thesis using v p n by simp
qed

text \<open>
  The claim as stated has \<open>GetFunctionValue\<close> leave \<open>x\<close> and \<open>a\<close> unchanged in every call. The
  signature lets the host pass a \<open>y\<close> that points into them: with \<open>y = a + 3\<close> the parameter
  array is changed by the call.
\<close>

theorem GetFunctionValue_alias_counterexample:
  "array_at (doubles host_memory) 0 [Lit ''0.0'']
   \<and> array_at (doubles host_memory) 1 [Lit ''2.0'', Lit ''0.0'', Lit ''1.0'', Lit ''1.0'']
   \<and> GetFunctionValue symbolic 0 1 4 host_memory
       = Inr (host_memory\<lparr>doubles := (doubles host_memory)(4 \<mapsto>
           Add (Mul (Mul (Lit ''0.5'') (Lit ''2.0''))
                  (Add (Lit ''1.0'')
                     (Erf (Div (Sub (Lit ''0.0'') (Lit ''0.0'')) (Mul (Lit ''1.0'') (Sqrt (Lit ''2.0'')))))))
               (Lit ''1.0''))\<rparr>)
   \<and> \<not> array_at (doubles (host_memory\<lparr>doubles := (doubles host_memory)(4 \<mapsto>
           Add (Mul (Mul (Lit ''0.5'') (Lit ''2.0''))
                  (Add (Lit ''1.0'')
                     (Erf (Div (Sub (Lit ''0.0'') (Lit ''0.0'')) (Mul (Lit ''1.0'') (Sqrt (Lit ''2.0'')))))))
               (Lit ''1.0''))\<rparr>)) 1 [Lit ''2.0'', Lit ''0.0'', Lit ''1.0'', Lit ''1.0'']"
  by (simp add: host_memory_def GetFunctionValue_def symbolic_def)

end
